theory Spec2Isabelle
  imports Complex_Main
begin

section \<open>JavaScript values used by the recurrence and day-boundary code\<close>

text \<open>
  Epoch milliseconds and hours are integers far inside the range in which a JavaScript number
  is exact, so they are modelled as \<open>int\<close>. A numeric field of a todo has the type \<open>number\<close>
  and arrives as JSON, so it is a finite number, not necessarily an integer: it is modelled as
  a rational. A field that is \<open>null\<close> or \<open>undefined\<close> is \<open>None\<close>: the code tests such fields
  with \<open>!= null\<close> only, which does not tell the two apart.
\<close>

text \<open>The remainder operator \<open>%\<close>: the dividend less the divisor times the quotient cut
  towards zero, so the result has the sign of the dividend.\<close>

definition jsTrunc :: "rat \<Rightarrow> int" where
  "jsTrunc q = (if q < 0 then \<lceil>q\<rceil> else \<lfloor>q\<rfloor>)"

definition jsRem :: "rat \<Rightarrow> rat \<Rightarrow> rat" where
  "jsRem a b = a - b * of_int (jsTrunc (a / b))"

definition digitChar :: "nat \<Rightarrow> char" where
  "digitChar n = ''0123456789'' ! (n mod 10)"

text \<open>\<open>String(n)\<close> for an integer: decimal digits, a minus sign in front of a negative one.\<close>

function showNat :: "nat \<Rightarrow> string" where
  "showNat n = (if n < 10 then [digitChar n] else showNat (n div 10) @ [digitChar (n mod 10)])"
  by pat_completeness auto
termination
  by (relation "measure id") auto

declare showNat.simps [simp del]

definition showInt :: "int \<Rightarrow> string" where
  "showInt n = (if n < 0 then CHR ''-'' # showNat (nat (- n)) else showNat (nat n))"

text \<open>
  The text of a number in a template literal or in \<open>num + "st"\<close>. For an integer it is
  \<open>showInt\<close>. The text JavaScript gives a number that is not an integer is not modelled: it is
  the parameter \<open>fractionText\<close> of the functions that print numbers.
\<close>

definition isInteger :: "rat \<Rightarrow> bool" where
  "isInteger x = (of_int \<lfloor>x\<rfloor> = x)"

definition numberText :: "(rat \<Rightarrow> string) \<Rightarrow> rat \<Rightarrow> string" where
  "numberText fractionText x = (if isInteger x then showInt \<lfloor>x\<rfloor> else fractionText x)"

text \<open>A value that is a string or \<open>undefined\<close>, and its text in a template literal.\<close>

definition templateText :: "string option \<Rightarrow> string" where
  "templateText v = (case v of None \<Rightarrow> ''undefined'' | Some s \<Rightarrow> s)"

text \<open>\<open>s.padStart(n, '0')\<close>.\<close>

definition padStart0 :: "nat \<Rightarrow> string \<Rightarrow> string" where
  "padStart0 n s = replicate (n - length s) CHR ''0'' @ s"

text \<open>\<open>s.includes(p)\<close>: \<open>p\<close> occurs in \<open>s\<close> as a contiguous run.\<close>

fun strIncludes :: "string \<Rightarrow> string \<Rightarrow> bool" where
  "strIncludes [] p = (p = [])"
| "strIncludes (c # cs) p = (take (length p) (c # cs) = p \<or> strIncludes cs p)"


section \<open>Recurrence labels (recurrenceLabels)\<close>

text \<open>The fields of \<open>Todo\<close> that \<open>getRecurrencePrefix\<close> reads.\<close>

record Todo =
  recurrenceType :: string
  recurrenceInterval :: "rat option"
  recurrenceDayOfWeek :: "rat option"
  recurrenceDayOfMonth :: "rat option"
  recurrenceWeekOfMonth :: "rat option"
  recurrenceDayOfWeekMonthly :: "rat option"
  recurrenceMonth :: "rat option"

definition days :: "string list" where
  "days = [''sunday'', ''monday'', ''tuesday'', ''wednesday'', ''thursday'', ''friday'',
           ''saturday'']"

text \<open>
  \<open>getDayName\<close>; \<open>days[dayIndex]\<close> is \<open>undefined\<close> (here \<open>None\<close>) when the index, which the
  test has put in 0..6, is not an integer.
\<close>

definition getDayName :: "rat option \<Rightarrow> string option" where
  "getDayName dayIndex =
     (case dayIndex of
        None \<Rightarrow> Some ''unknown''
      | Some i \<Rightarrow>
          if i < 0 \<or> i > 6 then Some ''unknown''
          else if isInteger i then Some (days ! nat \<lfloor>i\<rfloor>) else None)"

definition getOrdinal :: "(rat \<Rightarrow> string) \<Rightarrow> rat \<Rightarrow> string" where
  "getOrdinal fractionText num =
     (let j = jsRem num 10; k = jsRem num 100
      in if j = 1 \<and> k \<noteq> 11 then numberText fractionText num @ ''st''
         else if j = 2 \<and> k \<noteq> 12 then numberText fractionText num @ ''nd''
         else if j = 3 \<and> k \<noteq> 13 then numberText fractionText num @ ''rd''
         else numberText fractionText num @ ''th'')"

definition months :: "string list" where
  "months = [''january'', ''february'', ''march'', ''april'', ''may'', ''june'', ''july'',
             ''august'', ''september'', ''october'', ''november'', ''december'']"

definition getMonthName :: "rat option \<Rightarrow> string option" where
  "getMonthName monthIndex =
     (case monthIndex of
        None \<Rightarrow> Some ''unknown''
      | Some i \<Rightarrow>
          if i < 1 \<or> i > 12 then Some ''unknown''
          else if isInteger i then Some (months ! nat (\<lfloor>i\<rfloor> - 1)) else None)"

text \<open>
  The \<open>switch\<close> on \<open>todo.recurrenceType\<close>, one branch per \<open>case\<close> in the order of the source;
  the seven astronomical types and \<open>default\<close> all return the empty string.
\<close>

definition getRecurrencePrefix :: "(rat \<Rightarrow> string) \<Rightarrow> Todo \<Rightarrow> string" where
  "getRecurrencePrefix fractionText todo =
     (if recurrenceType todo = ''daily'' then ''every day''
      else if recurrenceType todo = ''every x days'' then
        (case recurrenceInterval todo of
           Some n \<Rightarrow> if n > 0 then ''every '' @ numberText fractionText n @ '' days''
                     else ''every x days''
         | None \<Rightarrow> ''every x days'')
      else if recurrenceType todo = ''weekly'' then
        (case recurrenceDayOfWeek todo of
           Some d \<Rightarrow> if d \<ge> 1 \<and> d \<le> 7
                     then ''every '' @ templateText (getDayName (Some (jsRem d 7)))
                     else ''weekly''
         | None \<Rightarrow> ''weekly'')
      else if recurrenceType todo = ''biweekly'' then
        (case recurrenceDayOfWeek todo of
           Some d \<Rightarrow> if d \<ge> 1 \<and> d \<le> 7
                     then ''every other '' @ templateText (getDayName (Some (jsRem d 7)))
                     else ''biweekly''
         | None \<Rightarrow> ''biweekly'')
      else if recurrenceType todo = ''monthly date'' then
        (case recurrenceDayOfMonth todo of
           Some d \<Rightarrow> if d \<ge> 1 \<and> d \<le> 31 then ''on the '' @ getOrdinal fractionText d
                     else ''monthly''
         | None \<Rightarrow> ''monthly'')
      else if recurrenceType todo = ''monthly day'' then
        (case (recurrenceWeekOfMonth todo, recurrenceDayOfWeekMonthly todo) of
           (Some w, Some d) \<Rightarrow>
             if d \<ge> 1 \<and> d \<le> 7
             then getOrdinal fractionText w @ '' ''
                  @ templateText (getDayName (Some (jsRem d 7)))
             else ''monthly''
         | _ \<Rightarrow> ''monthly'')
      else if recurrenceType todo = ''annually'' then
        (case (recurrenceMonth todo, recurrenceDayOfMonth todo) of
           (Some m, Some d) \<Rightarrow>
             if m \<ge> 1 \<and> m \<le> 12
             then numberText fractionText m @ ''/'' @ numberText fractionText d
             else ''annually''
         | _ \<Rightarrow> ''annually'')
      else if recurrenceType todo \<in> set [''full moon'', ''new moon'', ''every season'',
                ''winter solstice'', ''spring equinox'', ''summer solstice'',
                ''autumn equinox''] then ''''
      else '''')"

text \<open>A printer of non-integers for the examples, none of which prints one.\<close>

definition noFractionText :: "rat \<Rightarrow> string" where
  "noFractionText x = []"

text \<open>
  When a field counts as unusable for a label: \<open>absentOrOutside v lo hi\<close> for a field that is
  \<open>null\<close>/\<open>undefined\<close> or not in \<open>lo..hi\<close>, \<open>absentOrNotPositive v\<close> for one that is
  \<open>null\<close>/\<open>undefined\<close>, zero or negative; and \<open>integerOrAbsent v\<close> for a field that is
  \<open>null\<close>/\<open>undefined\<close> or an integer.
\<close>

definition absentOrOutside :: "'a::linorder option \<Rightarrow> 'a \<Rightarrow> 'a \<Rightarrow> bool" where
  "absentOrOutside v lo hi = (case v of None \<Rightarrow> True | Some x \<Rightarrow> x < lo \<or> x > hi)"

definition absentOrNotPositive :: "rat option \<Rightarrow> bool" where
  "absentOrNotPositive v = (case v of None \<Rightarrow> True | Some x \<Rightarrow> x \<le> 0)"

definition integerOrAbsent :: "rat option \<Rightarrow> bool" where
  "integerOrAbsent v = (case v of None \<Rightarrow> True | Some x \<Rightarrow> isInteger x)"


section \<open>Dates, the host clock and the configured time zone\<close>

text \<open>
  A JavaScript \<open>Date\<close> is its time value: milliseconds since the epoch, an integer. Its
  \<open>getUTC...\<close> accessors read the time value in UTC; its plain accessors (\<open>getHours\<close>,
  \<open>getFullYear\<close>, \<open>getMonth\<close>, \<open>getDate\<close>) read it in the time zone of the machine
  that runs the code, the host zone.
\<close>

definition msPerMinute :: int where "msPerMinute = 1000 * 60"
definition msPerHour :: int where "msPerHour = 3600000"
definition msPerDay :: int where "msPerDay = 86400000"

text \<open>
  Year, month (1..12) and day of the month of a day number (days since 1970-01-01) in the
  proleptic Gregorian calendar, which is the calendar of \<open>Date\<close>; and the day number of a
  year, month and day.
\<close>

definition civilFromDays :: "int \<Rightarrow> int \<times> int \<times> int" where
  "civilFromDays z =
     (let z1 = z + 719468;
          era = z1 div 146097;
          doe = z1 mod 146097;
          yoe = (doe - doe div 1460 + doe div 36524 - doe div 146096) div 365;
          doy = doe - (365 * yoe + yoe div 4 - yoe div 100);
          mp = (5 * doy + 2) div 153;
          d = doy - (153 * mp + 2) div 5 + 1;
          m = (if mp < 10 then mp + 3 else mp - 9)
      in (yoe + era * 400 + (if m \<le> 2 then 1 else 0), m, d))"

definition daysFromCivil :: "int \<Rightarrow> int \<Rightarrow> int \<Rightarrow> int" where
  "daysFromCivil y m d =
     (let y1 = (if m \<le> 2 then y - 1 else y);
          era = y1 div 400;
          yoe = y1 mod 400;
          doy = (153 * (if m > 2 then m - 3 else m + 9) + 2) div 5 + d - 1;
          doe = yoe * 365 + yoe div 4 - yoe div 100 + doy
      in era * 146097 + doe - 719468)"

definition getUTCHours :: "int \<Rightarrow> int" where
  "getUTCHours t = (t div msPerHour) mod 24"

definition getUTCFullYear :: "int \<Rightarrow> int" where
  "getUTCFullYear t = fst (civilFromDays (t div msPerDay))"

text \<open>\<open>getUTCMonth\<close> counts from 0.\<close>

definition getUTCMonth :: "int \<Rightarrow> int" where
  "getUTCMonth t = fst (snd (civilFromDays (t div msPerDay))) - 1"

definition getUTCDate :: "int \<Rightarrow> int" where
  "getUTCDate t = snd (snd (civilFromDays (t div msPerDay)))"

text \<open>
  \<open>d.setUTCDate(d.getUTCDate() - 1)\<close>: the same UTC time of day on the day before (day 0 of
  a month is the last day of the month before), that is one day less in the time value.
\<close>

definition setUTCDatePrevious :: "int \<Rightarrow> int" where
  "setUTCDatePrevious t = t - msPerDay"

text \<open>
  What the code reads from outside: the host zone, the zone named by \<open>getTimezone()\<close>, and
  \<open>getDayBoundaryHour()\<close>. Each zone is given by the two functions of a time zone database:
  its offset from UTC at an instant, and the offset it assigns to a wall-clock reading (the
  reading written as a time value in UTC). All offsets are in milliseconds, positive east of
  Greenwich. For a zone without clock changes both functions are the same constant; with
  clock changes, a reading that the clock skips has no instant that shows it.
\<close>

record Env =
  hostOffsetAt :: "int \<Rightarrow> int"
  hostOffsetOfLocal :: "int \<Rightarrow> int"
  tzOffsetAt :: "int \<Rightarrow> int"
  tzOffsetOfLocal :: "int \<Rightarrow> int"
  dayBoundaryHour :: int

text \<open>
  The host-local reading of a time value (\<open>LocalTime\<close> in the language standard) and the time
  value of a host-local reading (\<open>UTC\<close> there); the plain accessors read the former.
\<close>

definition localTime :: "Env \<Rightarrow> int \<Rightarrow> int" where
  "localTime env t = t + hostOffsetAt env t"

definition utcOfLocal :: "Env \<Rightarrow> int \<Rightarrow> int" where
  "utcOfLocal env reading = reading - hostOffsetOfLocal env reading"

definition getHours :: "Env \<Rightarrow> int \<Rightarrow> int" where
  "getHours env t = getUTCHours (localTime env t)"

definition getFullYear :: "Env \<Rightarrow> int \<Rightarrow> int" where
  "getFullYear env t = getUTCFullYear (localTime env t)"

definition getMonth :: "Env \<Rightarrow> int \<Rightarrow> int" where
  "getMonth env t = getUTCMonth (localTime env t)"

definition getDate :: "Env \<Rightarrow> int \<Rightarrow> int" where
  "getDate env t = getUTCDate (localTime env t)"

text \<open>
  \<open>toZonedTime(date, tz)\<close> of date-fns-tz: it takes the wall-clock fields of \<open>date\<close> in \<open>tz\<close>
  and sets them as the host-local fields of a new \<open>Date\<close>.
\<close>

definition toZonedTime :: "Env \<Rightarrow> int \<Rightarrow> int" where
  "toZonedTime env date = utcOfLocal env (date + tzOffsetAt env date)"

text \<open>
  \<open>fromZonedTime(text, tz)\<close> on a text \<open>yyyy-MM-ddTHH:00:00\<close>: the instant the database gives
  for that wall-clock reading of the zone. The text is given by the day number of its date and
  its hour; it is a time of day for hours 0 to 23.
\<close>

definition fromZonedTime :: "Env \<Rightarrow> int \<Rightarrow> int \<Rightarrow> int" where
  "fromZonedTime env dayNumber hour =
     (let wall = dayNumber * msPerDay + hour * msPerHour in wall - tzOffsetOfLocal env wall)"

text \<open>
  \<open>addDays(date, n)\<close> of date-fns is \<open>date.setDate(date.getDate() + n)\<close>: the host-local
  reading moves by \<open>n\<close> calendar days at the same time of day and is turned back into a
  time value. Across a clock change of the host the time value moves by 23 or 25 hours.
\<close>

definition addDaysFn :: "Env \<Rightarrow> int \<Rightarrow> int \<Rightarrow> int" where
  "addDaysFn env date amount = utcOfLocal env (localTime env date + amount * msPerDay)"

text \<open>
  \<open>formatTz(date, 'yyyy-MM-dd', {timeZone})\<close>: the pattern has no zone token, so the text is
  made of the host-zone fields of \<open>date\<close>; \<open>yyyy\<close> pads the year to four digits and writes
  year \<open>y \<le> 0\<close> as \<open>1 - y\<close>. \<open>hostDay\<close> is the day number of those fields.
\<close>

definition addLeadingZeros :: "int \<Rightarrow> nat \<Rightarrow> string" where
  "addLeadingZeros number targetLength =
     (if number < 0 then ''-'' else []) @ padStart0 targetLength (showInt \<bar>number\<bar>)"

definition hostDay :: "Env \<Rightarrow> int \<Rightarrow> int" where
  "hostDay env date = localTime env date div msPerDay"

definition formatTzDate :: "Env \<Rightarrow> int \<Rightarrow> string" where
  "formatTzDate env date =
     (let signedYear = getFullYear env date;
          year = (if signedYear > 0 then signedYear else 1 - signedYear)
      in addLeadingZeros year 4 @ ''-'' @ addLeadingZeros (getMonth env date + 1) 2 @ ''-''
         @ addLeadingZeros (getDate env date) 2)"


section \<open>Date utilities (dateUtils)\<close>

text \<open>\<open>formatInEST(date, 'yyyy-MM-dd')\<close>, the only pattern \<open>toISODateInEST\<close> passes.\<close>

definition formatInEST_date :: "Env \<Rightarrow> int \<Rightarrow> string" where
  "formatInEST_date env date =
     (let zonedDate = toZonedTime env date;
          year = getFullYear env zonedDate;
          month = padStart0 2 (showInt (getMonth env zonedDate + 1));
          day = padStart0 2 (showInt (getDate env zonedDate))
      in showInt year @ ''-'' @ month @ ''-'' @ day)"

definition toISODateInEST :: "Env \<Rightarrow> int \<Rightarrow> string" where
  "toISODateInEST env date = formatInEST_date env date"

text \<open>
  \<open>getTodayForRecurrence\<close>; the second argument is the clock reading \<open>new Date()\<close>. The text
  \<open>todayDateStr\<close> goes from the formatter to \<open>fromZonedTime\<close> as the day number it denotes,
  and \<open>parseInt(formatTz(now, 'H'))\<close> is the host-zone hour of \<open>now\<close>.
\<close>

definition getTodayForRecurrence :: "Env \<Rightarrow> int \<Rightarrow> int" where
  "getTodayForRecurrence env clock =
     (let now = toZonedTime env clock;
          todayDateStr = hostDay env now;
          todayAtBoundary = fromZonedTime env todayDateStr (dayBoundaryHour env);
          currentHour = getHours env now
      in if currentHour < dayBoundaryHour env then addDaysFn env todayAtBoundary (- 1)
         else todayAtBoundary)"

definition getCompletionDateForRecurrence :: "Env \<Rightarrow> int \<Rightarrow> string" where
  "getCompletionDateForRecurrence env completionTime =
     (let zonedTime = toZonedTime env completionTime;
          completionHour = getHours env zonedTime
      in if completionHour < dayBoundaryHour env
         then formatTzDate env (addDaysFn env zonedTime (- 1))
         else formatTzDate env zonedTime)"


section \<open>Day-boundary helpers (dayBoundaryHelpers)\<close>

definition getEffectiveDayForTimestamp :: "Env \<Rightarrow> int \<Rightarrow> int \<Rightarrow> string" where
  "getEffectiveDayForTimestamp env timestamp boundaryHour =
     (let zonedTime = toZonedTime env timestamp;
          adjustedDate = (if getUTCHours zonedTime < boundaryHour
                          then setUTCDatePrevious zonedTime else zonedTime)
      in toISODateInEST env adjustedDate)"

text \<open>
  \<open>getWorkedOnPhase\<close>; \<open>sessionTime\<close> is the time value of \<open>new Date(workSessionTimestamp)\<close>.
  The quotient of the two integers is a rational number.
\<close>

definition getWorkedOnPhase :: "Env \<Rightarrow> int \<Rightarrow> int \<Rightarrow> int \<Rightarrow> int \<Rightarrow> nat" where
  "getWorkedOnPhase env sessionTime now visibilityMinutes boundaryHour =
     (let minutesSinceSession = (of_int (now - sessionTime) :: rat) / of_int msPerMinute;
          sessionDay = getEffectiveDayForTimestamp env sessionTime boundaryHour;
          currentDay = getEffectiveDayForTimestamp env now boundaryHour
      in if sessionDay \<noteq> currentDay then 3
         else if minutesSinceSession \<le> of_int visibilityMinutes then 1
         else 2)"


section \<open>The effective day as the specification defines it\<close>

text \<open>
  The wall-clock reading of an instant in the configured zone, its hour and its day number;
  the effective day number moves to the day before when the hour is below the boundary hour.
\<close>

definition zoneWall :: "Env \<Rightarrow> int \<Rightarrow> int" where
  "zoneWall env t = t + tzOffsetAt env t"

definition zoneHour :: "Env \<Rightarrow> int \<Rightarrow> int" where
  "zoneHour env t = (zoneWall env t div msPerHour) mod 24"

definition zoneDay :: "Env \<Rightarrow> int \<Rightarrow> int" where
  "zoneDay env t = zoneWall env t div msPerDay"

definition effectiveDayNumber :: "Env \<Rightarrow> int \<Rightarrow> int \<Rightarrow> int" where
  "effectiveDayNumber env t boundaryHour =
     (if zoneHour env t < boundaryHour then zoneDay env t - 1 else zoneDay env t)"

text \<open>
  The phase of a work session by the algorithm of the specification: 3 when the effective
  days of the session and of now differ, else 1 when the elapsed minutes are at most the
  window, else 2.
\<close>

definition phaseBySpec :: "Env \<Rightarrow> int \<Rightarrow> int \<Rightarrow> int \<Rightarrow> int \<Rightarrow> nat" where
  "phaseBySpec env sessionTime now visibilityMinutes boundaryHour =
     (if effectiveDayNumber env sessionTime boundaryHour
           \<noteq> effectiveDayNumber env now boundaryHour then 3
      else if now - sessionTime \<le> visibilityMinutes * msPerMinute then 1
      else 2)"

text \<open>\<open>YYYY-MM-DD\<close> of a day number, for years of four digits.\<close>

definition isoDate :: "int \<Rightarrow> string" where
  "isoDate n =
     (case civilFromDays n of
        (y, m, d) \<Rightarrow> padStart0 4 (showInt y) @ ''-'' @ padStart0 2 (showInt m) @ ''-''
                     @ padStart0 2 (showInt d))"

text \<open>
  A reading exists on a clock when the instant the database gives for it shows it again.
  \<open>boundaryReading env n\<close> is the reading \<open>boundaryHour:00:00\<close> on day \<open>n\<close>.
\<close>

definition hostHasReading :: "Env \<Rightarrow> int \<Rightarrow> bool" where
  "hostHasReading env reading =
     (hostOffsetAt env (reading - hostOffsetOfLocal env reading) = hostOffsetOfLocal env reading)"

definition zoneHasReading :: "Env \<Rightarrow> int \<Rightarrow> bool" where
  "zoneHasReading env reading =
     (tzOffsetAt env (reading - tzOffsetOfLocal env reading) = tzOffsetOfLocal env reading)"

definition boundaryReading :: "Env \<Rightarrow> int \<Rightarrow> int" where
  "boundaryReading env dayNumber = dayNumber * msPerDay + dayBoundaryHour env * msPerHour"

text \<open>
  When the current zone-local hour is below the boundary hour, \<open>getTodayForRecurrence\<close> steps
  from today's boundary instant back by one day on the host clock. \<open>stepBackDrift\<close> is the
  change of the host's offset over that step less the change of the zone's offset over it;
  it is 0 when the hour is not below the boundary hour. \<open>clocksChangeAlike\<close> says it is 0.
\<close>

definition stepBackDrift :: "Env \<Rightarrow> int \<Rightarrow> int" where
  "stepBackDrift env clock =
     (if zoneHour env clock < dayBoundaryHour env then
        (let todayAtBoundary = fromZonedTime env (zoneDay env clock) (dayBoundaryHour env);
             reading = todayAtBoundary + hostOffsetAt env todayAtBoundary - msPerDay;
             stepped = reading - hostOffsetOfLocal env reading
         in (hostOffsetAt env todayAtBoundary - hostOffsetOfLocal env reading)
            - (tzOffsetAt env todayAtBoundary - tzOffsetAt env stepped))
      else 0)"

definition clocksChangeAlike :: "Env \<Rightarrow> int \<Rightarrow> bool" where
  "clocksChangeAlike env clock = (stepBackDrift env clock = 0)"

text \<open>
  Zones for the examples. \<open>newYork...\<close> is America/New\_York from November 2025 to November
  2026: five hours west until the clocks go from 02:00 to 03:00 on 8 March 2026 (at
  2026-03-08T07:00Z), four hours west after. A host resolves a reading in the skipped hour
  with the offset of before, as the language standard says; no example gives the configured
  zone such a reading. The deployments: zone New York on a host in UTC, zone New York on a
  host in the same zone, and zone and host both UTC, with boundary hour 4; and zone UTC on a
  host in New York with boundary hour 3.
\<close>

definition newYorkOffsetAt :: "int \<Rightarrow> int" where
  "newYorkOffsetAt t = (if t < 1772953200000 then - 18000000 else - 14400000)"

definition newYorkOffsetOfLocal :: "int \<Rightarrow> int" where
  "newYorkOffsetOfLocal reading = (if reading < 1772938800000 then - 18000000 else - 14400000)"

definition newYorkOnUtcHost :: Env where
  "newYorkOnUtcHost = \<lparr>hostOffsetAt = (\<lambda>_. 0), hostOffsetOfLocal = (\<lambda>_. 0),
     tzOffsetAt = newYorkOffsetAt, tzOffsetOfLocal = newYorkOffsetOfLocal,
     dayBoundaryHour = 4\<rparr>"

definition newYorkOnNewYorkHost :: Env where
  "newYorkOnNewYorkHost = \<lparr>hostOffsetAt = newYorkOffsetAt,
     hostOffsetOfLocal = newYorkOffsetOfLocal,
     tzOffsetAt = newYorkOffsetAt, tzOffsetOfLocal = newYorkOffsetOfLocal,
     dayBoundaryHour = 4\<rparr>"

definition utcOnUtcHost :: Env where
  "utcOnUtcHost = \<lparr>hostOffsetAt = (\<lambda>_. 0), hostOffsetOfLocal = (\<lambda>_. 0),
     tzOffsetAt = (\<lambda>_. 0), tzOffsetOfLocal = (\<lambda>_. 0), dayBoundaryHour = 4\<rparr>"

definition utcOnNewYorkHost :: Env where
  "utcOnNewYorkHost = \<lparr>hostOffsetAt = newYorkOffsetAt,
     hostOffsetOfLocal = newYorkOffsetOfLocal,
     tzOffsetAt = (\<lambda>_. 0), tzOffsetOfLocal = (\<lambda>_. 0), dayBoundaryHour = 3\<rparr>"


section \<open>The recurrence advancer and its two entry points\<close>

text \<open>
  Modelled from the spec: the next-occurrence function and the skip and complete route
  handlers are missing from the sources (only the test of the two routes is there). The
  definitions of this section follow sections 3 and 4.3 of the specification. A calendar date
  is its day number. The astronomy capability is a parameter: it gives the date of the next
  event of a type from the current date and the reference day.
\<close>

datatype RuleType =
  NoRecurrence | Daily | EveryXDays | Weekly | Biweekly | MonthlyDate | MonthlyDay | Annually
  | FullMoon | NewMoon | EverySeason | WinterSolstice | SpringEquinox | SummerSolstice
  | AutumnEquinox

record RecurrenceRule =
  ruleType :: RuleType
  ruleInterval :: "int option"
  ruleDayOfWeek :: "int option"
  ruleDayOfMonth :: "int option"
  ruleWeekOfMonth :: "int option"
  ruleDayOfWeekMonthly :: "int option"
  ruleMonth :: "int option"

datatype AdvanceError = MalformedRule

definition isLeapYear :: "int \<Rightarrow> bool" where
  "isLeapYear y = (if y mod 400 = 0 then True else if y mod 100 = 0 then False else y mod 4 = 0)"

definition daysInMonth :: "int \<Rightarrow> int \<Rightarrow> int" where
  "daysInMonth y m =
     (if m = 2 then (if isLeapYear y then 29 else 28)
      else if m \<in> set [4, 6, 9, 11] then 30 else 31)"

text \<open>The month after a month: December is followed by January of the next year.\<close>

definition followingMonth :: "int \<Rightarrow> int \<Rightarrow> int \<times> int" where
  "followingMonth y m = (if m = 12 then (y + 1, 1) else (y, m + 1))"

text \<open>ISO weekday of a day number, 1 for Monday to 7 for Sunday; day 0 is a Thursday.\<close>

definition isoWeekday :: "int \<Rightarrow> int" where
  "isoWeekday n = (n + 3) mod 7 + 1"

text \<open>The \<open>w\<close>-th day of ISO weekday \<open>d\<close> counted from the first day of a month.\<close>

definition nthWeekdayOfMonth :: "int \<Rightarrow> int \<Rightarrow> int \<Rightarrow> int \<Rightarrow> int" where
  "nthWeekdayOfMonth y m w d =
     (let first = daysFromCivil y m 1
      in first + (d - isoWeekday first) mod 7 + 7 * (w - 1))"

text \<open>
  Modelled from the spec: \<open>nextOccurrence\<close>, whose code is missing from the sources, by the
  per-type rules of section 4.3: one day, \<open>interval\<close> days, seven days, fourteen days, the
  same day of the following month clamped to its length, the same numbered weekday of the
  following month, the same month and day a year later, and the astronomy capability for the
  other types. A rule whose type is none or whose required fields are absent or out of range
  is a \<open>MalformedRule\<close>.
\<close>

definition nextOccurrence ::
  "(RuleType \<Rightarrow> int \<Rightarrow> int \<Rightarrow> int) \<Rightarrow> RecurrenceRule \<Rightarrow> int \<Rightarrow> int \<Rightarrow> AdvanceError + int" where
  "nextOccurrence astronomy rule currentDate referenceToday =
     (case ruleType rule of
        NoRecurrence \<Rightarrow> Inl MalformedRule
      | Daily \<Rightarrow> Inr (currentDate + 1)
      | EveryXDays \<Rightarrow>
          (case ruleInterval rule of
             Some n \<Rightarrow> if n > 0 then Inr (currentDate + n) else Inl MalformedRule
           | None \<Rightarrow> Inl MalformedRule)
      | Weekly \<Rightarrow>
          if absentOrOutside (ruleDayOfWeek rule) 1 7 then Inl MalformedRule
          else Inr (currentDate + 7)
      | Biweekly \<Rightarrow>
          if absentOrOutside (ruleDayOfWeek rule) 1 7 then Inl MalformedRule
          else Inr (currentDate + 14)
      | MonthlyDate \<Rightarrow>
          (case ruleDayOfMonth rule of
             Some d \<Rightarrow>
               if 1 \<le> d \<and> d \<le> 31 then
                 (case civilFromDays currentDate of
                    (y, m, _) \<Rightarrow>
                      (case followingMonth y m of
                         (y', m') \<Rightarrow> Inr (daysFromCivil y' m' (min d (daysInMonth y' m')))))
               else Inl MalformedRule
           | None \<Rightarrow> Inl MalformedRule)
      | MonthlyDay \<Rightarrow>
          (case (ruleWeekOfMonth rule, ruleDayOfWeekMonthly rule) of
             (Some w, Some d) \<Rightarrow>
               if 1 \<le> w \<and> w \<le> 5 \<and> 1 \<le> d \<and> d \<le> 7 then
                 (case civilFromDays currentDate of
                    (y, m, _) \<Rightarrow>
                      (case followingMonth y m of
                         (y', m') \<Rightarrow> Inr (nthWeekdayOfMonth y' m' w d)))
               else Inl MalformedRule
           | _ \<Rightarrow> Inl MalformedRule)
      | Annually \<Rightarrow>
          (case (ruleMonth rule, ruleDayOfMonth rule) of
             (Some m, Some d) \<Rightarrow>
               if 1 \<le> m \<and> m \<le> 12 \<and> 1 \<le> d \<and> d \<le> 31 then
                 (case civilFromDays currentDate of
                    (y, _, _) \<Rightarrow> Inr (daysFromCivil (y + 1) m d))
               else Inl MalformedRule
           | _ \<Rightarrow> Inl MalformedRule)
      | _ \<Rightarrow> Inr (astronomy (ruleType rule) currentDate referenceToday))"

text \<open>
  Modelled from the spec: an occurrence (section 3), the route handlers being missing from
  the sources. An entry point hands to the persistence layer what becomes of the prior
  occurrence (\<open>None\<close>: deleted; \<open>Some\<close>: kept, as given) and the new occurrence, which carries
  the next date.
\<close>

record Occurrence =
  displayDate :: int
  occurrenceRule :: RecurrenceRule
  completed :: bool

text \<open>
  Modelled from the spec: the skip entry point, whose route handler is missing from the
  sources. It computes the next date, deletes the prior occurrence and creates the new one.
\<close>

definition skipOccurrence ::
  "(RuleType \<Rightarrow> int \<Rightarrow> int \<Rightarrow> int) \<Rightarrow> Occurrence \<Rightarrow> int
     \<Rightarrow> AdvanceError + (Occurrence option \<times> Occurrence)" where
  "skipOccurrence astronomy occ referenceToday =
     (case nextOccurrence astronomy (occurrenceRule occ) (displayDate occ) referenceToday of
        Inl e \<Rightarrow> Inl e
      | Inr next \<Rightarrow> Inr (None, occ\<lparr>displayDate := next, completed := False\<rparr>))"

text \<open>
  Modelled from the spec: the complete entry point, whose route handler is missing from the
  sources. It computes the next date, marks the prior occurrence completed and creates the
  new one.
\<close>

definition completeOccurrence ::
  "(RuleType \<Rightarrow> int \<Rightarrow> int \<Rightarrow> int) \<Rightarrow> Occurrence \<Rightarrow> int
     \<Rightarrow> AdvanceError + (Occurrence option \<times> Occurrence)" where
  "completeOccurrence astronomy occ referenceToday =
     (case nextOccurrence astronomy (occurrenceRule occ) (displayDate occ) referenceToday of
        Inl e \<Rightarrow> Inl e
      | Inr next \<Rightarrow>
          Inr (Some (occ\<lparr>completed := True\<rparr>), occ\<lparr>displayDate := next, completed := False\<rparr>))"


section \<open>Properties of the recurrence labels\<close>

lemma isInteger_of_int: "isInteger (of_int n)"
  by (simp add: isInteger_def)

lemma numberText_of_int: "numberText fractionText (of_int n) = showInt n"
  by (simp add: numberText_def isInteger_of_int)

lemma jsRem_small: "0 \<le> a \<Longrightarrow> a < b \<Longrightarrow> jsRem a b = a"
proof -
  assume a: "0 \<le> a" "a < b"
  then have "0 \<le> a / b" "a / b < 1" by simp_all
  then have "\<lfloor>a / b\<rfloor> = 0" "\<not> a / b < 0" by (simp_all add: floor_eq_iff)
  then show ?thesis by (simp add: jsRem_def jsTrunc_def)
qed

lemma jsRem7: "1 \<le> d \<Longrightarrow> d \<le> 7 \<Longrightarrow> jsRem (of_int d) 7 = of_int (d mod 7)"
proof -
  assume "1 \<le> d" "d \<le> 7"
  then have "d = 1 \<or> d = 2 \<or> d = 3 \<or> d = 4 \<or> d = 5 \<or> d = 6 \<or> d = 7" by arith
  then show ?thesis by (auto simp add: jsRem_def jsTrunc_def floor_eq_iff)
qed

lemma dayName_iso:
  assumes "1 \<le> d" "d \<le> 7"
  shows "getDayName (Some (jsRem (of_int d) 7)) =
         Some ([''sunday'', ''monday'', ''tuesday'', ''wednesday'', ''thursday'', ''friday'',
          ''saturday''] ! nat (d mod 7))"
proof -
  have "0 \<le> d mod 7" "d mod 7 \<le> 6" by simp_all
  then have "\<not> ((of_int (d mod 7) :: rat) < 0)" "\<not> ((of_int (d mod 7) :: rat) > 6)"
    by simp_all
  then show ?thesis
    using assms by (simp add: jsRem7 getDayName_def days_def isInteger_of_int)
qed

text \<open>
  C1. For an ISO day of week \<open>d\<close> in 1..7 the weekly label is \<open>every\<close> followed by entry
  \<open>d mod 7\<close> of the table that starts at Sunday; the biweekly and the monthly-day labels take
  their weekday from the same entry. Day 7 gives \<open>every sunday\<close>, not \<open>every saturday\<close>.
\<close>

theorem weekly_label_uses_mod7:
  assumes "1 \<le> d" and "d \<le> 7"
  shows "getRecurrencePrefix fractionText
             (t\<lparr>recurrenceType := ''weekly'', recurrenceDayOfWeek := Some (of_int d)\<rparr>)
           = ''every '' @ [''sunday'', ''monday'', ''tuesday'', ''wednesday'', ''thursday'', ''friday'',
          ''saturday''] ! nat (d mod 7)
       \<and> getRecurrencePrefix fractionText
             (t\<lparr>recurrenceType := ''biweekly'', recurrenceDayOfWeek := Some (of_int d)\<rparr>)
           = ''every other '' @ [''sunday'', ''monday'', ''tuesday'', ''wednesday'', ''thursday'', ''friday'',
          ''saturday''] ! nat (d mod 7)
       \<and> getRecurrencePrefix fractionText (t\<lparr>recurrenceType := ''monthly day'',
             recurrenceWeekOfMonth := Some w, recurrenceDayOfWeekMonthly := Some (of_int d)\<rparr>)
           = getOrdinal fractionText w @ '' '' @ [''sunday'', ''monday'', ''tuesday'', ''wednesday'', ''thursday'', ''friday'',
          ''saturday''] ! nat (d mod 7)
       \<and> (d = 7 \<longrightarrow>
            getRecurrencePrefix fractionText
                (t\<lparr>recurrenceType := ''weekly'', recurrenceDayOfWeek := Some (of_int d)\<rparr>)
              = ''every sunday''
          \<and> getRecurrencePrefix fractionText
                (t\<lparr>recurrenceType := ''weekly'', recurrenceDayOfWeek := Some (of_int d)\<rparr>)
              \<noteq> ''every saturday'')"
proof -
  have g: "(1 :: rat) \<le> of_int d" "(of_int d :: rat) \<le> 7" using assms by simp_all
  have w: "getRecurrencePrefix fractionText
             (t\<lparr>recurrenceType := ''weekly'', recurrenceDayOfWeek := Some (of_int d)\<rparr>)
           = ''every '' @ [''sunday'', ''monday'', ''tuesday'', ''wednesday'', ''thursday'', ''friday'',
          ''saturday''] ! nat (d mod 7)"
    using assms g by (simp add: getRecurrencePrefix_def dayName_iso templateText_def)
  have b: "getRecurrencePrefix fractionText
             (t\<lparr>recurrenceType := ''biweekly'', recurrenceDayOfWeek := Some (of_int d)\<rparr>)
           = ''every other '' @ [''sunday'', ''monday'', ''tuesday'', ''wednesday'', ''thursday'', ''friday'',
          ''saturday''] ! nat (d mod 7)"
    using assms g by (simp add: getRecurrencePrefix_def dayName_iso templateText_def)
  have m: "getRecurrencePrefix fractionText (t\<lparr>recurrenceType := ''monthly day'',
             recurrenceWeekOfMonth := Some w, recurrenceDayOfWeekMonthly := Some (of_int d)\<rparr>)
           = getOrdinal fractionText w @ '' '' @ [''sunday'', ''monday'', ''tuesday'', ''wednesday'', ''thursday'', ''friday'',
          ''saturday''] ! nat (d mod 7)"
    using assms g by (simp add: getRecurrencePrefix_def dayName_iso templateText_def)
  have s: "d = 7 \<longrightarrow>
            getRecurrencePrefix fractionText
                (t\<lparr>recurrenceType := ''weekly'', recurrenceDayOfWeek := Some (of_int d)\<rparr>)
              = ''every sunday''
          \<and> getRecurrencePrefix fractionText
                (t\<lparr>recurrenceType := ''weekly'', recurrenceDayOfWeek := Some (of_int d)\<rparr>)
              \<noteq> ''every saturday''"
    unfolding w by simp
  from w b m s show ?thesis by (intro conjI)
qed

theorem weekly_label_uses_mod7_witness:
  "(1::int) \<le> 7 \<and> (7::int) \<le> 7
   \<and> getRecurrencePrefix noFractionText
       \<lparr>recurrenceType = ''weekly'', recurrenceInterval = None, recurrenceDayOfWeek = Some 7,
       recurrenceDayOfMonth = None, recurrenceWeekOfMonth = None,
       recurrenceDayOfWeekMonthly = None, recurrenceMonth = None\<rparr> = ''every sunday''
   \<and> getRecurrencePrefix noFractionText
       \<lparr>recurrenceType = ''biweekly'', recurrenceInterval = None, recurrenceDayOfWeek = Some 7,
       recurrenceDayOfMonth = None, recurrenceWeekOfMonth = None,
       recurrenceDayOfWeekMonthly = None, recurrenceMonth = None\<rparr> = ''every other sunday''"
  using weekly_label_uses_mod7 [of 7 noFractionText "\<lparr>recurrenceType = ''weekly'', recurrenceInterval = None, recurrenceDayOfWeek = Some 7,
       recurrenceDayOfMonth = None, recurrenceWeekOfMonth = None,
       recurrenceDayOfWeekMonthly = None, recurrenceMonth = None\<rparr>"]
    weekly_label_uses_mod7 [of 7 noFractionText "\<lparr>recurrenceType = ''biweekly'', recurrenceInterval = None, recurrenceDayOfWeek = Some 7,
       recurrenceDayOfMonth = None, recurrenceWeekOfMonth = None,
       recurrenceDayOfWeekMonthly = None, recurrenceMonth = None\<rparr>"]
  by simp

lemma showNat_0: "showNat 0 = ''0''"
  by (simp add: showNat.simps digitChar_def)

lemma showNat_7: "showNat 7 = ''7''"
  by (simp add: showNat.simps digitChar_def)

lemma showNat_32: "showNat 32 = ''32''"
  by (simp add: showNat.simps [of 32] showNat.simps [of 3] digitChar_def)

lemma ordinal_0: "getOrdinal fractionText 0 = ''0th''"
  by (simp add: getOrdinal_def jsRem_def jsTrunc_def numberText_def isInteger_def showInt_def
      showNat_0)

text \<open>
  C2, as the claim states it, fails: a monthly-day rule whose week of the month is zero (outside
  1..5) with a valid weekday gets the label \<open>0th monday\<close>, not \<open>monthly\<close>, and an annual rule
  with day of month 32 gets \<open>7/32\<close>, not \<open>annually\<close>.
\<close>

theorem fallback_labels_counterexample:
  "getRecurrencePrefix noFractionText
       \<lparr>recurrenceType = ''monthly day'', recurrenceInterval = None, recurrenceDayOfWeek = None,
       recurrenceDayOfMonth = None, recurrenceWeekOfMonth = Some 0,
       recurrenceDayOfWeekMonthly = Some 1, recurrenceMonth = None\<rparr> = ''0th monday''
   \<and> getRecurrencePrefix noFractionText
       \<lparr>recurrenceType = ''monthly day'', recurrenceInterval = None, recurrenceDayOfWeek = None,
       recurrenceDayOfMonth = None, recurrenceWeekOfMonth = Some 0,
       recurrenceDayOfWeekMonthly = Some 1, recurrenceMonth = None\<rparr> \<noteq> ''monthly''
   \<and> getRecurrencePrefix noFractionText
       \<lparr>recurrenceType = ''annually'', recurrenceInterval = None, recurrenceDayOfWeek = None,
       recurrenceDayOfMonth = Some 32, recurrenceWeekOfMonth = None,
       recurrenceDayOfWeekMonthly = None, recurrenceMonth = Some 7\<rparr> = ''7/32''"
proof -
  have d: "getDayName (Some (jsRem 1 7)) = Some ''monday''"
    using dayName_iso [of 1] by (simp add: days_def)
  have 1: "getRecurrencePrefix noFractionText
       \<lparr>recurrenceType = ''monthly day'', recurrenceInterval = None, recurrenceDayOfWeek = None,
       recurrenceDayOfMonth = None, recurrenceWeekOfMonth = Some 0,
       recurrenceDayOfWeekMonthly = Some 1, recurrenceMonth = None\<rparr> = ''0th monday''"
    by (simp add: getRecurrencePrefix_def ordinal_0 d templateText_def)
  have n7: "numberText noFractionText 7 = ''7''"
    using numberText_of_int [of noFractionText 7] by (simp add: showInt_def showNat_7)
  have n32: "numberText noFractionText 32 = ''32''"
    using numberText_of_int [of noFractionText 32] by (simp add: showInt_def showNat_32)
  have 2: "getRecurrencePrefix noFractionText
       \<lparr>recurrenceType = ''annually'', recurrenceInterval = None, recurrenceDayOfWeek = None,
       recurrenceDayOfMonth = Some 32, recurrenceWeekOfMonth = None,
       recurrenceDayOfWeekMonthly = None, recurrenceMonth = Some 7\<rparr> = ''7/32''"
    by (simp add: getRecurrencePrefix_def n7 n32)
  from 1 2 show ?thesis by simp
qed

text \<open>
  C2, amended. The generic label of a type is returned whenever a field that the branch of
  that type tests fails its test: the interval absent or not positive; the day of the week
  (weekly, biweekly) absent or outside 1..7; the day of the month of a monthly-date rule absent
  or outside 1..31; for monthly-day the week of the month absent, or the weekday absent or
  outside 1..7; for annually the month absent or outside 1..12, or the day of the month absent.
  The function is total: no branch raises.
\<close>

theorem fallback_labels:
  "(recurrenceType t = ''every x days'' \<and> absentOrNotPositive (recurrenceInterval t)
      \<longrightarrow> getRecurrencePrefix fractionText t = ''every x days'')
 \<and> (recurrenceType t = ''weekly'' \<and> absentOrOutside (recurrenceDayOfWeek t) 1 7
      \<longrightarrow> getRecurrencePrefix fractionText t = ''weekly'')
 \<and> (recurrenceType t = ''biweekly'' \<and> absentOrOutside (recurrenceDayOfWeek t) 1 7
      \<longrightarrow> getRecurrencePrefix fractionText t = ''biweekly'')
 \<and> (recurrenceType t = ''monthly date'' \<and> absentOrOutside (recurrenceDayOfMonth t) 1 31
      \<longrightarrow> getRecurrencePrefix fractionText t = ''monthly'')
 \<and> (recurrenceType t = ''monthly day'' \<and>
       (recurrenceWeekOfMonth t = None \<or> absentOrOutside (recurrenceDayOfWeekMonthly t) 1 7)
      \<longrightarrow> getRecurrencePrefix fractionText t = ''monthly'')
 \<and> (recurrenceType t = ''annually'' \<and>
       (absentOrOutside (recurrenceMonth t) 1 12 \<or> recurrenceDayOfMonth t = None)
      \<longrightarrow> getRecurrencePrefix fractionText t = ''annually'')"
  by (auto simp add: getRecurrencePrefix_def absentOrOutside_def absentOrNotPositive_def
      split: option.splits)

theorem fallback_labels_witness:
  "getRecurrencePrefix noFractionText
       \<lparr>recurrenceType = ''every x days'', recurrenceInterval = Some 0, recurrenceDayOfWeek = None,
       recurrenceDayOfMonth = None, recurrenceWeekOfMonth = None,
       recurrenceDayOfWeekMonthly = None, recurrenceMonth = None\<rparr> = ''every x days''
   \<and> getRecurrencePrefix noFractionText
       \<lparr>recurrenceType = ''weekly'', recurrenceInterval = None, recurrenceDayOfWeek = Some 8,
       recurrenceDayOfMonth = None, recurrenceWeekOfMonth = None,
       recurrenceDayOfWeekMonthly = None, recurrenceMonth = None\<rparr> = ''weekly''
   \<and> getRecurrencePrefix noFractionText
       \<lparr>recurrenceType = ''biweekly'', recurrenceInterval = None, recurrenceDayOfWeek = None,
       recurrenceDayOfMonth = None, recurrenceWeekOfMonth = None,
       recurrenceDayOfWeekMonthly = None, recurrenceMonth = None\<rparr> = ''biweekly''
   \<and> getRecurrencePrefix noFractionText
       \<lparr>recurrenceType = ''monthly date'', recurrenceInterval = None, recurrenceDayOfWeek = None,
       recurrenceDayOfMonth = Some 32, recurrenceWeekOfMonth = None,
       recurrenceDayOfWeekMonthly = None, recurrenceMonth = None\<rparr> = ''monthly''
   \<and> getRecurrencePrefix noFractionText
       \<lparr>recurrenceType = ''monthly day'', recurrenceInterval = None, recurrenceDayOfWeek = None,
       recurrenceDayOfMonth = None, recurrenceWeekOfMonth = None,
       recurrenceDayOfWeekMonthly = Some 1, recurrenceMonth = None\<rparr> = ''monthly''
   \<and> getRecurrencePrefix noFractionText
       \<lparr>recurrenceType = ''annually'', recurrenceInterval = None, recurrenceDayOfWeek = None,
       recurrenceDayOfMonth = Some 15, recurrenceWeekOfMonth = None,
       recurrenceDayOfWeekMonthly = None, recurrenceMonth = Some 13\<rparr> = ''annually''"
proof -
  have w1: "getRecurrencePrefix noFractionText
       \<lparr>recurrenceType = ''every x days'', recurrenceInterval = Some 0, recurrenceDayOfWeek = None,
       recurrenceDayOfMonth = None, recurrenceWeekOfMonth = None,
       recurrenceDayOfWeekMonthly = None, recurrenceMonth = None\<rparr> = ''every x days''"
    using fallback_labels [of "\<lparr>recurrenceType = ''every x days'', recurrenceInterval = Some 0, recurrenceDayOfWeek = None,
       recurrenceDayOfMonth = None, recurrenceWeekOfMonth = None,
       recurrenceDayOfWeekMonthly = None, recurrenceMonth = None\<rparr>" noFractionText,
        THEN conjunct1]
    by (simp add: absentOrOutside_def absentOrNotPositive_def)
  have w2: "getRecurrencePrefix noFractionText
       \<lparr>recurrenceType = ''weekly'', recurrenceInterval = None, recurrenceDayOfWeek = Some 8,
       recurrenceDayOfMonth = None, recurrenceWeekOfMonth = None,
       recurrenceDayOfWeekMonthly = None, recurrenceMonth = None\<rparr> = ''weekly''"
    using fallback_labels [of "\<lparr>recurrenceType = ''weekly'', recurrenceInterval = None, recurrenceDayOfWeek = Some 8,
       recurrenceDayOfMonth = None, recurrenceWeekOfMonth = None,
       recurrenceDayOfWeekMonthly = None, recurrenceMonth = None\<rparr>" noFractionText,
        THEN conjunct2, THEN conjunct1]
    by (simp add: absentOrOutside_def absentOrNotPositive_def)
  have w3: "getRecurrencePrefix noFractionText
       \<lparr>recurrenceType = ''biweekly'', recurrenceInterval = None, recurrenceDayOfWeek = None,
       recurrenceDayOfMonth = None, recurrenceWeekOfMonth = None,
       recurrenceDayOfWeekMonthly = None, recurrenceMonth = None\<rparr> = ''biweekly''"
    using fallback_labels [of "\<lparr>recurrenceType = ''biweekly'', recurrenceInterval = None, recurrenceDayOfWeek = None,
       recurrenceDayOfMonth = None, recurrenceWeekOfMonth = None,
       recurrenceDayOfWeekMonthly = None, recurrenceMonth = None\<rparr>" noFractionText,
        THEN conjunct2, THEN conjunct2, THEN conjunct1]
    by (simp add: absentOrOutside_def absentOrNotPositive_def)
  have w4: "getRecurrencePrefix noFractionText
       \<lparr>recurrenceType = ''monthly date'', recurrenceInterval = None, recurrenceDayOfWeek = None,
       recurrenceDayOfMonth = Some 32, recurrenceWeekOfMonth = None,
       recurrenceDayOfWeekMonthly = None, recurrenceMonth = None\<rparr> = ''monthly''"
    using fallback_labels [of "\<lparr>recurrenceType = ''monthly date'', recurrenceInterval = None, recurrenceDayOfWeek = None,
       recurrenceDayOfMonth = Some 32, recurrenceWeekOfMonth = None,
       recurrenceDayOfWeekMonthly = None, recurrenceMonth = None\<rparr>" noFractionText,
        THEN conjunct2, THEN conjunct2, THEN conjunct2, THEN conjunct1]
    by (simp add: absentOrOutside_def absentOrNotPositive_def)
  have w5: "getRecurrencePrefix noFractionText
       \<lparr>recurrenceType = ''monthly day'', recurrenceInterval = None, recurrenceDayOfWeek = None,
       recurrenceDayOfMonth = None, recurrenceWeekOfMonth = None,
       recurrenceDayOfWeekMonthly = Some 1, recurrenceMonth = None\<rparr> = ''monthly''"
    using fallback_labels [of "\<lparr>recurrenceType = ''monthly day'', recurrenceInterval = None, recurrenceDayOfWeek = None,
       recurrenceDayOfMonth = None, recurrenceWeekOfMonth = None,
       recurrenceDayOfWeekMonthly = Some 1, recurrenceMonth = None\<rparr>" noFractionText,
        THEN conjunct2, THEN conjunct2, THEN conjunct2, THEN conjunct2, THEN conjunct1]
    by (simp add: absentOrOutside_def absentOrNotPositive_def)
  have w6: "getRecurrencePrefix noFractionText
       \<lparr>recurrenceType = ''annually'', recurrenceInterval = None, recurrenceDayOfWeek = None,
       recurrenceDayOfMonth = Some 15, recurrenceWeekOfMonth = None,
       recurrenceDayOfWeekMonthly = None, recurrenceMonth = Some 13\<rparr> = ''annually''"
    using fallback_labels [of "\<lparr>recurrenceType = ''annually'', recurrenceInterval = None, recurrenceDayOfWeek = None,
       recurrenceDayOfMonth = Some 15, recurrenceWeekOfMonth = None,
       recurrenceDayOfWeekMonthly = None, recurrenceMonth = Some 13\<rparr>" noFractionText,
        THEN conjunct2, THEN conjunct2, THEN conjunct2, THEN conjunct2, THEN conjunct2]
    by (simp add: absentOrOutside_def absentOrNotPositive_def)
  from w1 w2 w3 w4 w5 w6 show ?thesis by (intro conjI)
qed

lemma strIncludes_set: "strIncludes s p \<Longrightarrow> set p \<subseteq> set s"
proof (induction s)
  case Nil
  then show ?case by simp
next
  case (Cons c cs)
  from Cons.prems have "take (length p) (c # cs) = p \<or> strIncludes cs p" by simp
  then show ?case
  proof
    assume "take (length p) (c # cs) = p"
    then have "set p = set (take (length p) (c # cs))" by simp
    then show ?thesis using set_take_subset [of "length p" "c # cs"] by blast
  next
    assume "strIncludes cs p"
    then show ?thesis using Cons.IH by auto
  qed
qed

lemma digitChar_in: "digitChar n \<in> set ''0123456789''"
  unfolding digitChar_def by (rule nth_mem) simp

lemma showNat_digits: "set (showNat n) \<subseteq> set ''0123456789''"
proof (induction n rule: showNat.induct)
  case (1 n)
  show ?case
  proof (cases "n < 10")
    case True
    then show ?thesis using digitChar_in [of n] by (subst showNat.simps) simp
  next
    case False
    then show ?thesis using 1 digitChar_in [of "n mod 10"] by (subst showNat.simps) simp
  qed
qed

lemma showNat_no_k: "CHR ''k'' \<notin> set (showNat n)"
proof
  assume "CHR ''k'' \<in> set (showNat n)"
  with showNat_digits [of n] have "CHR ''k'' \<in> set ''0123456789''" by blast
  then show False by simp
qed

lemma showInt_no_k: "CHR ''k'' \<notin> set (showInt n)"
  by (simp add: showInt_def showNat_no_k)

lemma numberText_no_k:
  "\<forall>x. CHR ''k'' \<notin> set (fractionText x) \<Longrightarrow> CHR ''k'' \<notin> set (numberText fractionText n)"
  by (simp add: numberText_def showInt_no_k)

lemma getOrdinal_no_k:
  "\<forall>x. CHR ''k'' \<notin> set (fractionText x) \<Longrightarrow> CHR ''k'' \<notin> set (getOrdinal fractionText n)"
  using numberText_no_k [of fractionText n] by (simp add: getOrdinal_def Let_def)

lemma dayName_no_k:
  assumes "isInteger d" and "1 \<le> d" and "d \<le> 7"
  shows "CHR ''k'' \<notin> set (templateText (getDayName (Some (jsRem d 7))))"
proof -
  obtain n where n: "d = of_int n" using assms(1) by (auto simp add: isInteger_def)
  with assms have r: "1 \<le> n" "n \<le> 7" by simp_all
  have e: "getDayName (Some (jsRem (of_int n) 7)) =
         Some ([''sunday'', ''monday'', ''tuesday'', ''wednesday'', ''thursday'', ''friday'',
          ''saturday''] ! nat (n mod 7))"
    using r by (rule dayName_iso)
  from r have "n = 1 \<or> n = 2 \<or> n = 3 \<or> n = 4 \<or> n = 5 \<or> n = 6 \<or> n = 7" by arith
  then have "CHR ''k'' \<notin> set ([''sunday'', ''monday'', ''tuesday'', ''wednesday'', ''thursday'', ''friday'',
          ''saturday''] ! nat (n mod 7))"
    by auto
  then show ?thesis unfolding n e by (simp add: templateText_def)
qed

text \<open>
  With integer weekdays every label lacks one of the letters of \<open>unknown\<close>: \<open>weekly\<close> and
  \<open>biweekly\<close> have no \<open>u\<close>, and no other label has a \<open>k\<close>.
\<close>

lemma prefix_lacks_k_or_u:
  assumes i1: "integerOrAbsent (recurrenceDayOfWeek t)"
    and i2: "integerOrAbsent (recurrenceDayOfWeekMonthly t)"
    and ft: "\<forall>x. CHR ''k'' \<notin> set (fractionText x)"
  shows "CHR ''k'' \<notin> set (getRecurrencePrefix fractionText t)
         \<or> CHR ''u'' \<notin> set (getRecurrencePrefix fractionText t)"
proof -
  let ?ty = "recurrenceType t"
  note nk = numberText_no_k [OF ft] getOrdinal_no_k [OF ft]
  consider (daily) "?ty = ''daily''"
    | (xdays) "?ty = ''every x days''"
    | (weekly) "?ty = ''weekly''"
    | (biweekly) "?ty = ''biweekly''"
    | (mdate) "?ty = ''monthly date''"
    | (mday) "?ty = ''monthly day''"
    | (annually) "?ty = ''annually''"
    | (other) "?ty \<noteq> ''daily''" "?ty \<noteq> ''every x days''" "?ty \<noteq> ''weekly''"
        "?ty \<noteq> ''biweekly''" "?ty \<noteq> ''monthly date''" "?ty \<noteq> ''monthly day''"
        "?ty \<noteq> ''annually''"
    by blast
  then show ?thesis
  proof cases
    case daily
    then show ?thesis by (simp add: getRecurrencePrefix_def)
  next
    case xdays
    then show ?thesis using nk
      by (simp add: getRecurrencePrefix_def split: option.splits)
  next
    case weekly
    then show ?thesis using dayName_no_k i1
      by (simp add: getRecurrencePrefix_def integerOrAbsent_def split: option.splits)
  next
    case biweekly
    then show ?thesis using dayName_no_k i1
      by (simp add: getRecurrencePrefix_def integerOrAbsent_def split: option.splits)
  next
    case mdate
    then show ?thesis using nk
      by (simp add: getRecurrencePrefix_def split: option.splits)
  next
    case mday
    then show ?thesis using nk dayName_no_k i2
      by (simp add: getRecurrencePrefix_def integerOrAbsent_def split: option.splits)
  next
    case annually
    then show ?thesis using nk
      by (simp add: getRecurrencePrefix_def split: option.splits)
  next
    case other
    then show ?thesis by (simp add: getRecurrencePrefix_def)
  qed
qed

text \<open>
  C10, as the claim states it, fails: the fields are numbers, and the day of the week 6.5
  passes the test 1..7, \<open>6.5 % 7\<close> is 6.5, which is above 6, so \<open>getDayName\<close> returns
  \<open>unknown\<close> and the weekly label is \<open>every unknown\<close>; likewise for the monthly-day label.
\<close>

theorem prefix_unknown_counterexample:
  "getRecurrencePrefix noFractionText
       \<lparr>recurrenceType = ''weekly'', recurrenceInterval = None, recurrenceDayOfWeek = Some (13 / 2),
       recurrenceDayOfMonth = None, recurrenceWeekOfMonth = None,
       recurrenceDayOfWeekMonthly = None, recurrenceMonth = None\<rparr> = ''every unknown''
   \<and> strIncludes (getRecurrencePrefix noFractionText
       \<lparr>recurrenceType = ''weekly'', recurrenceInterval = None, recurrenceDayOfWeek = Some (13 / 2),
       recurrenceDayOfMonth = None, recurrenceWeekOfMonth = None,
       recurrenceDayOfWeekMonthly = None, recurrenceMonth = None\<rparr>) ''unknown''
   \<and> getRecurrencePrefix noFractionText
       \<lparr>recurrenceType = ''monthly day'', recurrenceInterval = None, recurrenceDayOfWeek = None,
       recurrenceDayOfMonth = None, recurrenceWeekOfMonth = Some 1,
       recurrenceDayOfWeekMonthly = Some (13 / 2), recurrenceMonth = None\<rparr> = ''1st unknown''"
proof -
  have r: "jsRem (13 / 2) 7 = 13 / 2" by (simp add: jsRem_small)
  have d: "getDayName (Some (13 / 2)) = Some ''unknown''" by (simp add: getDayName_def)
  have 1: "getRecurrencePrefix noFractionText
       \<lparr>recurrenceType = ''weekly'', recurrenceInterval = None, recurrenceDayOfWeek = Some (13 / 2),
       recurrenceDayOfMonth = None, recurrenceWeekOfMonth = None,
       recurrenceDayOfWeekMonthly = None, recurrenceMonth = None\<rparr> = ''every unknown''"
    by (simp add: getRecurrencePrefix_def r d templateText_def)
  have 2: "strIncludes ''every unknown'' ''unknown''" by simp
  have o: "getOrdinal noFractionText 1 = ''1st''"
    by (simp add: getOrdinal_def jsRem_small numberText_def isInteger_def showInt_def
        showNat.simps [of "Suc 0"] digitChar_def)
  have 3: "getRecurrencePrefix noFractionText
       \<lparr>recurrenceType = ''monthly day'', recurrenceInterval = None, recurrenceDayOfWeek = None,
       recurrenceDayOfMonth = None, recurrenceWeekOfMonth = Some 1,
       recurrenceDayOfWeekMonthly = Some (13 / 2), recurrenceMonth = None\<rparr> = ''1st unknown''"
    by (simp add: getRecurrencePrefix_def r d o templateText_def)
  from 1 2 3 show ?thesis by simp
qed

text \<open>
  C10, amended. For every todo whose two day-of-the-week fields (\<open>recurrenceDayOfWeek\<close>,
  \<open>recurrenceDayOfWeekMonthly\<close>) are integers or absent, whatever its type and its other
  fields, the label does not contain \<open>unknown\<close>: with an integer in 1..7 the index handed to
  \<open>getDayName\<close> is in 0..6. (The text of a number has no letter \<open>k\<close>.)
\<close>

theorem prefix_never_unknown_for_integer_days:
  assumes "integerOrAbsent (recurrenceDayOfWeek t)"
    and "integerOrAbsent (recurrenceDayOfWeekMonthly t)"
    and "\<forall>x. CHR ''k'' \<notin> set (fractionText x)"
  shows "\<not> strIncludes (getRecurrencePrefix fractionText t) ''unknown''"
proof
  assume "strIncludes (getRecurrencePrefix fractionText t) ''unknown''"
  then have "set ''unknown'' \<subseteq> set (getRecurrencePrefix fractionText t)"
    by (rule strIncludes_set)
  then have "CHR ''k'' \<in> set (getRecurrencePrefix fractionText t)"
    "CHR ''u'' \<in> set (getRecurrencePrefix fractionText t)"
    by auto
  then show False using prefix_lacks_k_or_u [OF assms] by simp
qed

theorem prefix_never_unknown_for_integer_days_witness:
  "integerOrAbsent (Some 7) \<and> integerOrAbsent None
   \<and> (\<forall>x. CHR ''k'' \<notin> set (noFractionText x))
   \<and> \<not> strIncludes (getRecurrencePrefix noFractionText
       \<lparr>recurrenceType = ''weekly'', recurrenceInterval = None, recurrenceDayOfWeek = Some 7,
       recurrenceDayOfMonth = None, recurrenceWeekOfMonth = None,
       recurrenceDayOfWeekMonthly = None, recurrenceMonth = None\<rparr>) ''unknown''"
proof -
  have a: "integerOrAbsent (Some 7)" "integerOrAbsent None"
    by (simp_all add: integerOrAbsent_def isInteger_def)
  have b: "\<forall>x. CHR ''k'' \<notin> set (noFractionText x)" by (simp add: noFractionText_def)
  have "\<not> strIncludes (getRecurrencePrefix noFractionText
       \<lparr>recurrenceType = ''weekly'', recurrenceInterval = None, recurrenceDayOfWeek = Some 7,
       recurrenceDayOfMonth = None, recurrenceWeekOfMonth = None,
       recurrenceDayOfWeekMonthly = None, recurrenceMonth = None\<rparr>) ''unknown''"
    by (rule prefix_never_unknown_for_integer_days) (simp_all add: a b)
  with a b show ?thesis by (intro conjI)
qed


section \<open>Properties of the effective day\<close>

lemma div_day_prev: "(x - msPerDay) div msPerDay = x div msPerDay - 1"
proof -
  have "x - msPerDay = x + (- 1) * msPerDay" by simp
  then have "(x - msPerDay) div msPerDay = (x + (- 1) * msPerDay) div msPerDay" by simp
  also have "\<dots> = x div msPerDay + (- 1)"
    by (subst div_mult_self1) (simp_all add: msPerDay_def)
  finally show ?thesis by simp
qed

lemma formatTzDate_hostDay:
  "hostDay env a = hostDay env' b \<Longrightarrow> formatTzDate env a = formatTzDate env' b"
  by (simp add: formatTzDate_def hostDay_def getFullYear_def getMonth_def getDate_def
      getUTCFullYear_def getUTCMonth_def getUTCDate_def)

text \<open>Where the host clock has the zone's reading, the zoned \<open>Date\<close> shows it.\<close>

lemma localTime_zoned:
  "hostHasReading env (zoneWall env t) \<Longrightarrow> localTime env (toZonedTime env t) = zoneWall env t"
  by (simp add: hostHasReading_def localTime_def toZonedTime_def utcOfLocal_def zoneWall_def)

lemma hostDay_zoned:
  "hostHasReading env (zoneWall env t) \<Longrightarrow> hostDay env (toZonedTime env t) = zoneDay env t"
  by (simp add: hostDay_def localTime_zoned zoneDay_def)

lemma getHours_zoned:
  "hostHasReading env (zoneWall env t) \<Longrightarrow> getHours env (toZonedTime env t) = zoneHour env t"
  by (simp add: getHours_def localTime_zoned zoneHour_def getUTCHours_def)

lemma hostDay_zoned_prev:
  assumes "hostHasReading env (zoneWall env t)"
    and "hostHasReading env (zoneWall env t - msPerDay)"
  shows "hostDay env (addDaysFn env (toZonedTime env t) (- 1)) = zoneDay env t - 1"
proof -
  have "addDaysFn env (toZonedTime env t) (- 1) = utcOfLocal env (zoneWall env t - msPerDay)"
    using assms(1) by (simp add: addDaysFn_def localTime_zoned)
  then have "localTime env (addDaysFn env (toZonedTime env t) (- 1)) = zoneWall env t - msPerDay"
    using assms(2) by (simp add: localTime_def utcOfLocal_def hostHasReading_def)
  then show ?thesis by (simp add: hostDay_def zoneDay_def div_day_prev)
qed

lemma hostDay_midnight: "hostDay (env\<lparr>hostOffsetAt := (\<lambda>_. 0)\<rparr>) (n * msPerDay) = n"
  by (simp add: hostDay_def localTime_def msPerDay_def)

text \<open>
  \<open>getCompletionDateForRecurrence\<close> gives the effective day of the specification for every
  zone, on every host whose clock has the zone's reading of the instant (and, when it steps
  back, the reading a day earlier): the date text of the day before the zone-local date when
  the zone-local hour is below the boundary hour, of the zone-local date otherwise.
\<close>

lemma completion_date_is_effective_day:
  assumes h: "hostHasReading env (zoneWall env t)"
    and p: "zoneHour env t < dayBoundaryHour env \<Longrightarrow>
            hostHasReading env (zoneWall env t - msPerDay)"
  shows "getCompletionDateForRecurrence env t =
     formatTzDate (env\<lparr>hostOffsetAt := (\<lambda>_. 0)\<rparr>)
       (effectiveDayNumber env t (dayBoundaryHour env) * msPerDay)"
proof (cases "zoneHour env t < dayBoundaryHour env")
  case True
  have "formatTzDate env (addDaysFn env (toZonedTime env t) (- 1)) =
        formatTzDate (env\<lparr>hostOffsetAt := (\<lambda>_. 0)\<rparr>) ((zoneDay env t - 1) * msPerDay)"
    by (rule formatTzDate_hostDay)
      (simp only: hostDay_zoned_prev [OF h p [OF True]] hostDay_midnight)
  with True show ?thesis
    by (simp add: getCompletionDateForRecurrence_def Let_def getHours_zoned [OF h]
        effectiveDayNumber_def)
next
  case False
  have "formatTzDate env (toZonedTime env t) =
        formatTzDate (env\<lparr>hostOffsetAt := (\<lambda>_. 0)\<rparr>) (zoneDay env t * msPerDay)"
    by (rule formatTzDate_hostDay) (simp only: hostDay_zoned [OF h] hostDay_midnight)
  with False show ?thesis
    by (simp add: getCompletionDateForRecurrence_def Let_def getHours_zoned [OF h]
        effectiveDayNumber_def)
qed

text \<open>
  \<open>getEffectiveDayForTimestamp\<close> gives the effective day of the specification when the
  configured zone and the host zone are both UTC, the setting of its tests.
\<close>

lemma toISODateInEST_day:
  "localTime env (toZonedTime env a) div msPerDay = localTime env (toZonedTime env b) div msPerDay
   \<Longrightarrow> toISODateInEST env a = toISODateInEST env b"
  by (simp add: toISODateInEST_def formatInEST_date_def Let_def getFullYear_def
      getMonth_def getDate_def getUTCFullYear_def getUTCMonth_def getUTCDate_def)

lemma effective_day_when_all_utc:
  assumes "\<forall>t. hostOffsetAt env t = 0" and "\<forall>r. hostOffsetOfLocal env r = 0"
    and "\<forall>t. tzOffsetAt env t = 0"
  shows "getEffectiveDayForTimestamp env t b =
           toISODateInEST env (effectiveDayNumber env t b * msPerDay)"
proof -
  have z: "toZonedTime env x = x" for x
    using assms by (simp add: toZonedTime_def utcOfLocal_def)
  have l: "localTime env x = x" for x using assms by (simp add: localTime_def)
  have h: "getUTCHours t = zoneHour env t"
    using assms by (simp add: getUTCHours_def zoneHour_def zoneWall_def)
  have d: "zoneDay env t = t div msPerDay" using assms by (simp add: zoneDay_def zoneWall_def)
  have m: "(n * msPerDay) div msPerDay = n" for n by (simp add: msPerDay_def)
  show ?thesis
  proof (cases "zoneHour env t < b")
    case True
    have "toISODateInEST env (t - msPerDay) = toISODateInEST env ((t div msPerDay - 1) * msPerDay)"
      by (rule toISODateInEST_day) (simp only: z l div_day_prev m)
    with True show ?thesis
      by (simp add: getEffectiveDayForTimestamp_def Let_def z h d effectiveDayNumber_def
          setUTCDatePrevious_def)
  next
    case False
    have "toISODateInEST env t = toISODateInEST env ((t div msPerDay) * msPerDay)"
      by (rule toISODateInEST_day) (simp only: z l m)
    with False show ?thesis
      by (simp add: getEffectiveDayForTimestamp_def Let_def z h d effectiveDayNumber_def)
  qed
qed

text \<open>
  C3 fails on \<open>getEffectiveDayForTimestamp\<close>. The instant 2026-01-06T02:00:00-05:00 (time value
  1767682800000) with zone America/New\_York and boundary hour 4 has zone-local hour 2 and
  zone-local date 2026-01-06, so its effective day is 2026-01-05. On a host in UTC the function
  returns 2026-01-04: it shifts the instant into the zone, steps back a day, and
  \<open>toISODateInEST\<close> shifts into the zone once more. On a host in New York it returns
  2026-01-06: there \<open>getUTCHours\<close> of the zoned date is the UTC hour 7, not the local hour 2.
\<close>

theorem effective_day_shifted_twice:
  "zoneHour newYorkOnUtcHost 1767682800000 = 2
   \<and> isoDate (zoneDay newYorkOnUtcHost 1767682800000) = ''2026-01-06''
   \<and> isoDate (effectiveDayNumber newYorkOnUtcHost 1767682800000 4) = ''2026-01-05''
   \<and> getEffectiveDayForTimestamp newYorkOnUtcHost 1767682800000 4 = ''2026-01-04''
   \<and> getEffectiveDayForTimestamp newYorkOnNewYorkHost 1767682800000 4 = ''2026-01-06''"
proof -
  have 1: "zoneHour newYorkOnUtcHost 1767682800000 = 2" by code_simp
  have 2: "isoDate (zoneDay newYorkOnUtcHost 1767682800000) = ''2026-01-06''" by code_simp
  have 3: "isoDate (effectiveDayNumber newYorkOnUtcHost 1767682800000 4) = ''2026-01-05''"
    by code_simp
  have 4: "getEffectiveDayForTimestamp newYorkOnUtcHost 1767682800000 4 = ''2026-01-04''"
    by code_simp
  have 5: "getEffectiveDayForTimestamp newYorkOnNewYorkHost 1767682800000 4 = ''2026-01-06''"
    by code_simp
  from 1 2 3 4 5 show ?thesis by (intro conjI)
qed

text \<open>
  The classifier follows the days that \<open>getEffectiveDayForTimestamp\<close> returns: 3 when they
  differ, else 1 when the elapsed milliseconds are at most 60000 times the window, else 2.
\<close>

lemma worked_on_phase_by_returned_days:
  "(getWorkedOnPhase env s now v b = 3 \<longleftrightarrow>
      getEffectiveDayForTimestamp env s b \<noteq> getEffectiveDayForTimestamp env now b)
   \<and> (getWorkedOnPhase env s now v b = 1 \<longleftrightarrow>
      getEffectiveDayForTimestamp env s b = getEffectiveDayForTimestamp env now b
      \<and> now - s \<le> v * 60000)
   \<and> (getWorkedOnPhase env s now v b = 2 \<longleftrightarrow>
      getEffectiveDayForTimestamp env s b = getEffectiveDayForTimestamp env now b
      \<and> now - s > v * 60000)"
proof -
  have q: "((of_int (now - s) :: rat) / of_int msPerMinute \<le> of_int v) \<longleftrightarrow>
           now - s \<le> v * 60000"
  proof -
    have "((of_int (now - s) :: rat) / 60000 \<le> of_int v) \<longleftrightarrow>
          (of_int (now - s) :: rat) \<le> of_int v * 60000"
      by (simp add: pos_divide_le_eq)
    also have "\<dots> \<longleftrightarrow> (of_int (now - s) :: rat) \<le> of_int (v * 60000)" by simp
    also have "\<dots> \<longleftrightarrow> now - s \<le> v * 60000" by (rule of_int_le_iff)
    finally show ?thesis by (simp add: msPerMinute_def)
  qed
  show ?thesis
    unfolding getWorkedOnPhase_def Let_def q by auto
qed

text \<open>
  C4 fails on \<open>getWorkedOnPhase\<close>, by the double shift of C3: the days it compares are those
  of \<open>getEffectiveDayForTimestamp\<close>, not the effective days. Zone America/New\_York, boundary
  hour 4, window 60 minutes. On a host in New York, a session at 03:30 local on 6 January
  (1767688200000) and now at 04:10 local (1767690600000) have the effective days 5 and 6
  January, so the phase is 3; the function returns 1. On a host in UTC, a session at 23:30
  local on 5 January (1767673800000) and now at 00:30 local on 6 January (1767677400000) have
  the same effective day, 5 January, and 60 minutes between them, so the phase is 1; the
  function returns 3.
\<close>

theorem worked_on_phase_follows_shifted_day:
  "effectiveDayNumber newYorkOnNewYorkHost 1767688200000 4 = 20458
   \<and> effectiveDayNumber newYorkOnNewYorkHost 1767690600000 4 = 20459
   \<and> phaseBySpec newYorkOnNewYorkHost 1767688200000 1767690600000 60 4 = 3
   \<and> getWorkedOnPhase newYorkOnNewYorkHost 1767688200000 1767690600000 60 4 = 1
   \<and> effectiveDayNumber newYorkOnUtcHost 1767673800000 4 = 20458
   \<and> effectiveDayNumber newYorkOnUtcHost 1767677400000 4 = 20458
   \<and> phaseBySpec newYorkOnUtcHost 1767673800000 1767677400000 60 4 = 1
   \<and> getWorkedOnPhase newYorkOnUtcHost 1767673800000 1767677400000 60 4 = 3"
proof -
  have 1: "effectiveDayNumber newYorkOnNewYorkHost 1767688200000 4 = 20458" by code_simp
  have 2: "effectiveDayNumber newYorkOnNewYorkHost 1767690600000 4 = 20459" by code_simp
  have 3: "phaseBySpec newYorkOnNewYorkHost 1767688200000 1767690600000 60 4 = 3"
    by (simp add: phaseBySpec_def 1 2)
  have a: "getEffectiveDayForTimestamp newYorkOnNewYorkHost 1767688200000 4 = ''2026-01-06''"
    by code_simp
  have b: "getEffectiveDayForTimestamp newYorkOnNewYorkHost 1767690600000 4 = ''2026-01-06''"
    by code_simp
  have 4: "getWorkedOnPhase newYorkOnNewYorkHost 1767688200000 1767690600000 60 4 = 1"
    by (simp add: getWorkedOnPhase_def a b msPerMinute_def)
  have 5: "effectiveDayNumber newYorkOnUtcHost 1767673800000 4 = 20458" by code_simp
  have 6: "effectiveDayNumber newYorkOnUtcHost 1767677400000 4 = 20458" by code_simp
  have 7: "phaseBySpec newYorkOnUtcHost 1767673800000 1767677400000 60 4 = 1"
    by (simp add: phaseBySpec_def 5 6 msPerMinute_def)
  have c: "getEffectiveDayForTimestamp newYorkOnUtcHost 1767673800000 4 = ''2026-01-05''"
    by code_simp
  have d: "getEffectiveDayForTimestamp newYorkOnUtcHost 1767677400000 4 = ''2026-01-04''"
    by code_simp
  have 8: "getWorkedOnPhase newYorkOnUtcHost 1767673800000 1767677400000 60 4 = 3"
    by (simp add: getWorkedOnPhase_def c d)
  from 1 2 3 4 5 6 7 8 show ?thesis by (intro conjI)
qed

text \<open>
  C5, as the claim states it, fails, in three ways. With zone UTC and boundary hour 4, at
  2026-01-06T05:00Z (1767675600000) \<open>getTodayForRecurrence\<close> returns 2026-01-06T04:00Z
  (1767672000000), whose local time of day is four hours after midnight. With zone
  America/New\_York on a host in UTC, at 00:30 local on 8 March 2026 (1772947800000), the day
  the zone's clocks go forward, it returns 2026-03-07T08:00Z (1772870400000), which reads 03:00
  on 7 March in the zone: the step back is a day of the host clock, which does not change with
  the zone's. With zone UTC and boundary hour 3 on a host in New York, at 2026-03-08T02:30Z
  (1772937000000) the zone's reading 02:30 is skipped by the host clock, which shows 03:30; the
  code reads hour 3, not 2, and returns 2026-03-08T03:00Z (1772938800000), on today's date,
  where the effective day is 7 March.
\<close>

theorem today_for_recurrence_counterexample:
  "getTodayForRecurrence utcOnUtcHost 1767675600000 = 1767672000000
   \<and> zoneWall utcOnUtcHost 1767672000000 mod msPerDay = 4 * msPerHour
   \<and> zoneWall utcOnUtcHost 1767672000000 mod msPerDay \<noteq> 0
   \<and> zoneHour newYorkOnUtcHost 1772947800000 = 0
   \<and> getTodayForRecurrence newYorkOnUtcHost 1772947800000 = 1772870400000
   \<and> zoneWall newYorkOnUtcHost 1772870400000 = 20519 * msPerDay + 3 * msPerHour
   \<and> zoneHour utcOnNewYorkHost 1772937000000 = 2
   \<and> effectiveDayNumber utcOnNewYorkHost 1772937000000 3 = 20519
   \<and> getTodayForRecurrence utcOnNewYorkHost 1772937000000 = 1772938800000
   \<and> zoneWall utcOnNewYorkHost 1772938800000 = 20520 * msPerDay + 3 * msPerHour"
proof -
  have 1: "getTodayForRecurrence utcOnUtcHost 1767675600000 = 1767672000000" by code_simp
  have 2: "zoneWall utcOnUtcHost 1767672000000 mod msPerDay = 4 * msPerHour" by code_simp
  have 3: "zoneWall utcOnUtcHost 1767672000000 mod msPerDay \<noteq> 0" by code_simp
  have 4: "zoneHour newYorkOnUtcHost 1772947800000 = 0" by code_simp
  have 5: "getTodayForRecurrence newYorkOnUtcHost 1772947800000 = 1772870400000" by code_simp
  have 6: "zoneWall newYorkOnUtcHost 1772870400000 = 20519 * msPerDay + 3 * msPerHour"
    by code_simp
  have 7: "zoneHour utcOnNewYorkHost 1772937000000 = 2" by code_simp
  have 8: "effectiveDayNumber utcOnNewYorkHost 1772937000000 3 = 20519" by code_simp
  have 9: "getTodayForRecurrence utcOnNewYorkHost 1772937000000 = 1772938800000" by code_simp
  have 10: "zoneWall utcOnNewYorkHost 1772938800000 = 20520 * msPerDay + 3 * msPerHour"
    by code_simp
  from 1 2 3 4 5 6 7 8 9 10 show ?thesis by (intro conjI)
qed

text \<open>
  What \<open>getTodayForRecurrence\<close> returns, for every zone and host: where the host clock has the
  zone's reading of now and the zone has the reading \<open>boundaryHour:00:00\<close> of today, the
  returned instant reads, in the zone, \<open>boundaryHour:00:00\<close> on the effective day plus the
  drift of the step back.
\<close>

lemma today_for_recurrence_reading:
  assumes h: "hostHasReading env (zoneWall env clock)"
    and z: "zoneHasReading env (boundaryReading env (zoneDay env clock))"
  shows "zoneWall env (getTodayForRecurrence env clock) =
           boundaryReading env (effectiveDayNumber env clock (dayBoundaryHour env))
             + stepBackDrift env clock"
proof -
  define wB where "wB = boundaryReading env (zoneDay env clock)"
  define tAB where "tAB = fromZonedTime env (zoneDay env clock) (dayBoundaryHour env)"
  have t: "tAB = wB - tzOffsetOfLocal env wB"
    by (simp add: tAB_def wB_def fromZonedTime_def boundaryReading_def Let_def)
  have "tzOffsetAt env tAB = tzOffsetOfLocal env wB"
    using z by (simp add: zoneHasReading_def t wB_def)
  then have w: "wB = tAB + tzOffsetAt env tAB" by (simp add: t)
  show ?thesis
  proof (cases "zoneHour env clock < dayBoundaryHour env")
    case False
    then have "getTodayForRecurrence env clock = tAB"
      by (simp add: getTodayForRecurrence_def Let_def hostDay_zoned [OF h] getHours_zoned [OF h]
          tAB_def)
    with False w show ?thesis
      by (simp add: zoneWall_def effectiveDayNumber_def stepBackDrift_def wB_def)
  next
    case True
    define reading where "reading = tAB + hostOffsetAt env tAB - msPerDay"
    define stepped where "stepped = reading - hostOffsetOfLocal env reading"
    from True have g: "getTodayForRecurrence env clock = stepped"
      by (simp add: getTodayForRecurrence_def Let_def hostDay_zoned [OF h] getHours_zoned [OF h]
          tAB_def addDaysFn_def localTime_def utcOfLocal_def stepped_def reading_def)
    from True have d: "stepBackDrift env clock =
        (hostOffsetAt env tAB - hostOffsetOfLocal env reading)
          - (tzOffsetAt env tAB - tzOffsetAt env stepped)"
      by (simp add: stepBackDrift_def Let_def tAB_def stepped_def reading_def)
    from True have e: "boundaryReading env (effectiveDayNumber env clock (dayBoundaryHour env))
        = wB - msPerDay"
      by (simp add: effectiveDayNumber_def boundaryReading_def wB_def algebra_simps)
    show ?thesis
      unfolding g d e zoneWall_def
      by (simp add: w stepped_def reading_def)
  qed
qed

text \<open>
  Host and zone clocks change alike over the step back when the host is in the configured
  zone (and the zone has the reading \<open>boundaryHour:00:00\<close> of yesterday too), and when no
  clock changes.
\<close>

lemma clocks_change_alike_same_zone:
  assumes "hostOffsetAt env = tzOffsetAt env" and "hostOffsetOfLocal env = tzOffsetOfLocal env"
    and z: "zoneHasReading env (boundaryReading env (zoneDay env clock))"
    and y: "zoneHasReading env (boundaryReading env (zoneDay env clock - 1))"
  shows "clocksChangeAlike env clock"
proof (cases "zoneHour env clock < dayBoundaryHour env")
  case False
  then show ?thesis by (simp add: clocksChangeAlike_def stepBackDrift_def)
next
  case True
  define wB where "wB = boundaryReading env (zoneDay env clock)"
  define tAB where "tAB = fromZonedTime env (zoneDay env clock) (dayBoundaryHour env)"
  have t: "tAB = wB - tzOffsetOfLocal env wB"
    by (simp add: tAB_def wB_def fromZonedTime_def boundaryReading_def Let_def)
  have "tzOffsetAt env tAB = tzOffsetOfLocal env wB"
    using z by (simp add: zoneHasReading_def t wB_def)
  then have r: "tAB + tzOffsetAt env tAB - msPerDay = wB - msPerDay" by (simp add: t)
  have p: "boundaryReading env (zoneDay env clock - 1) = wB - msPerDay"
    by (simp add: boundaryReading_def wB_def algebra_simps)
  have "tzOffsetAt env (wB - msPerDay - tzOffsetOfLocal env (wB - msPerDay))
        = tzOffsetOfLocal env (wB - msPerDay)"
    using y by (simp add: zoneHasReading_def p)
  with True show ?thesis
    by (simp add: clocksChangeAlike_def stepBackDrift_def Let_def assms(1,2) tAB_def [symmetric] r)
qed

lemma clocks_change_alike_constant:
  assumes "\<forall>t. hostOffsetAt env t = ho" and "\<forall>r. hostOffsetOfLocal env r = ho"
    and "\<forall>t. tzOffsetAt env t = zo"
  shows "clocksChangeAlike env clock"
  using assms by (simp add: clocksChangeAlike_def stepBackDrift_def Let_def)

text \<open>
  C5, amended. For a boundary hour in 0..23, every zone and every host, where the host clock
  has the zone's reading of now, the zone has the reading \<open>boundaryHour:00:00\<close> of today (a
  reading that the zone's clock skips is shown by no instant), and host and zone clocks change
  alike over the step back: \<open>getTodayForRecurrence\<close> returns the instant that reads
  \<open>boundaryHour:00:00\<close> (not midnight) in the zone on the effective day, that is on
  yesterday's local date when the current local hour is below the boundary hour and on
  today's otherwise. It is a local-midnight instant only for boundary hour 0.
\<close>

theorem today_for_recurrence_at_boundary_hour:
  assumes "0 \<le> dayBoundaryHour env" and "dayBoundaryHour env \<le> 23"
    and "hostHasReading env (zoneWall env clock)"
    and "zoneHasReading env (boundaryReading env (zoneDay env clock))"
    and "clocksChangeAlike env clock"
  shows "zoneWall env (getTodayForRecurrence env clock) =
           boundaryReading env (effectiveDayNumber env clock (dayBoundaryHour env))"
  using today_for_recurrence_reading [OF assms(3,4)] assms(5)
  by (simp add: clocksChangeAlike_def)

theorem today_for_recurrence_at_boundary_hour_witness:
  "0 \<le> dayBoundaryHour newYorkOnNewYorkHost \<and> dayBoundaryHour newYorkOnNewYorkHost \<le> 23
   \<and> hostHasReading newYorkOnNewYorkHost (zoneWall newYorkOnNewYorkHost 1772947800000)
   \<and> zoneHasReading newYorkOnNewYorkHost
       (boundaryReading newYorkOnNewYorkHost (zoneDay newYorkOnNewYorkHost 1772947800000))
   \<and> clocksChangeAlike newYorkOnNewYorkHost 1772947800000
   \<and> zoneHour newYorkOnNewYorkHost 1772947800000 = 0
   \<and> getTodayForRecurrence newYorkOnNewYorkHost 1772947800000 = 1772874000000
   \<and> zoneWall newYorkOnNewYorkHost (getTodayForRecurrence newYorkOnNewYorkHost 1772947800000) =
       20519 * msPerDay + 4 * msPerHour
   \<and> 0 \<le> dayBoundaryHour newYorkOnUtcHost \<and> dayBoundaryHour newYorkOnUtcHost \<le> 23
   \<and> hostHasReading newYorkOnUtcHost (zoneWall newYorkOnUtcHost 1767682800000)
   \<and> zoneHasReading newYorkOnUtcHost
       (boundaryReading newYorkOnUtcHost (zoneDay newYorkOnUtcHost 1767682800000))
   \<and> clocksChangeAlike newYorkOnUtcHost 1767682800000
   \<and> zoneHour newYorkOnUtcHost 1767682800000 = 2
   \<and> zoneWall newYorkOnUtcHost (getTodayForRecurrence newYorkOnUtcHost 1767682800000) =
       20458 * msPerDay + 4 * msPerHour"
proof -
  have b: "0 \<le> dayBoundaryHour newYorkOnNewYorkHost"
    "dayBoundaryHour newYorkOnNewYorkHost \<le> 23"
    by (simp_all add: newYorkOnNewYorkHost_def)
  have h: "hostHasReading newYorkOnNewYorkHost (zoneWall newYorkOnNewYorkHost 1772947800000)"
    by code_simp
  have z: "zoneHasReading newYorkOnNewYorkHost
       (boundaryReading newYorkOnNewYorkHost (zoneDay newYorkOnNewYorkHost 1772947800000))"
    by code_simp
  have c: "clocksChangeAlike newYorkOnNewYorkHost 1772947800000" by code_simp
  have o: "zoneHour newYorkOnNewYorkHost 1772947800000 = 0" by code_simp
  have g: "getTodayForRecurrence newYorkOnNewYorkHost 1772947800000 = 1772874000000"
    by code_simp
  have e: "boundaryReading newYorkOnNewYorkHost
             (effectiveDayNumber newYorkOnNewYorkHost 1772947800000
               (dayBoundaryHour newYorkOnNewYorkHost)) = 20519 * msPerDay + 4 * msPerHour"
    by code_simp
  have r: "zoneWall newYorkOnNewYorkHost
             (getTodayForRecurrence newYorkOnNewYorkHost 1772947800000) =
       20519 * msPerDay + 4 * msPerHour"
    using today_for_recurrence_at_boundary_hour [OF b h z c] by (simp only: e)
  have b': "0 \<le> dayBoundaryHour newYorkOnUtcHost" "dayBoundaryHour newYorkOnUtcHost \<le> 23"
    by (simp_all add: newYorkOnUtcHost_def)
  have h': "hostHasReading newYorkOnUtcHost (zoneWall newYorkOnUtcHost 1767682800000)"
    by code_simp
  have z': "zoneHasReading newYorkOnUtcHost
       (boundaryReading newYorkOnUtcHost (zoneDay newYorkOnUtcHost 1767682800000))"
    by code_simp
  have c': "clocksChangeAlike newYorkOnUtcHost 1767682800000" by code_simp
  have o': "zoneHour newYorkOnUtcHost 1767682800000 = 2" by code_simp
  have e': "boundaryReading newYorkOnUtcHost
             (effectiveDayNumber newYorkOnUtcHost 1767682800000
               (dayBoundaryHour newYorkOnUtcHost)) = 20458 * msPerDay + 4 * msPerHour"
    by code_simp
  have r': "zoneWall newYorkOnUtcHost (getTodayForRecurrence newYorkOnUtcHost 1767682800000) =
       20458 * msPerDay + 4 * msPerHour"
    using today_for_recurrence_at_boundary_hour [OF b' h' z' c'] by (simp only: e')
  from b h z c o g r b' h' z' c' o' r' show ?thesis by (intro conjI)
qed

text \<open>
  C6 fails on \<open>getEffectiveDayForTimestamp\<close>, by the double shift of C3. With zone
  America/New\_York, a host in UTC and boundary hour 4, the instant 2026-01-06T04:30Z (local
  23:30 of 5 January) gets 2026-01-05 and the later instant 2026-01-06T05:30Z (local 00:30 of
  6 January) gets 2026-01-04: the day goes back as time goes on, and it changes at local
  midnight.
\<close>

theorem effective_day_goes_back:
  "(1767673800000 :: int) < 1767677400000
   \<and> getEffectiveDayForTimestamp newYorkOnUtcHost 1767673800000 4 = ''2026-01-05''
   \<and> getEffectiveDayForTimestamp newYorkOnUtcHost 1767677400000 4 = ''2026-01-04''"
proof -
  have 1: "(1767673800000 :: int) < 1767677400000" by simp
  have 2: "getEffectiveDayForTimestamp newYorkOnUtcHost 1767673800000 4 = ''2026-01-05''"
    by code_simp
  have 3: "getEffectiveDayForTimestamp newYorkOnUtcHost 1767677400000 4 = ''2026-01-04''"
    by code_simp
  from 1 2 3 show ?thesis by (intro conjI)
qed

text \<open>
  C9 fails, by the double shift of C3: for 2026-01-06T03:59:00-05:00 (1767689940000), zone
  America/New\_York, a host in UTC and boundary hour 4, \<open>getCompletionDateForRecurrence\<close>
  returns 2026-01-05 and \<open>getEffectiveDayForTimestamp\<close> returns 2026-01-04.
\<close>

theorem effective_day_implementations_differ:
  "getCompletionDateForRecurrence newYorkOnUtcHost 1767689940000 = ''2026-01-05''
   \<and> getEffectiveDayForTimestamp newYorkOnUtcHost 1767689940000
       (dayBoundaryHour newYorkOnUtcHost) = ''2026-01-04''"
proof -
  have 1: "getCompletionDateForRecurrence newYorkOnUtcHost 1767689940000 = ''2026-01-05''"
    by code_simp
  have 2: "getEffectiveDayForTimestamp newYorkOnUtcHost 1767689940000
             (dayBoundaryHour newYorkOnUtcHost) = ''2026-01-04''"
    by code_simp
  from 1 2 show ?thesis by (intro conjI)
qed


section \<open>Properties of the recurrence advancer\<close>

text \<open>
  C7. For every occurrence and reference day the skip entry point and the complete entry
  point either both fail with the same error or both hand over the same new occurrence, with
  the same next date; they differ in the prior occurrence only, which skip deletes and
  complete keeps, marked completed.
\<close>

theorem skip_complete_same_next_date:
  "(case (skipOccurrence astronomy occ today, completeOccurrence astronomy occ today) of
      (Inr (prior1, new1), Inr (prior2, new2)) \<Rightarrow>
        new1 = new2 \<and> displayDate new1 = displayDate new2
        \<and> nextOccurrence astronomy (occurrenceRule occ) (displayDate occ) today
            = Inr (displayDate new1)
        \<and> prior1 = None \<and> prior2 = Some (occ\<lparr>completed := True\<rparr>)
    | (Inl e1, Inl e2) \<Rightarrow> e1 = e2
    | _ \<Rightarrow> False)"
  by (cases "nextOccurrence astronomy (occurrenceRule occ) (displayDate occ) today")
    (simp_all add: skipOccurrence_def completeOccurrence_def)

text \<open>
  C8. Whatever the current date and the reference day, a daily rule advances the date by one
  day and a weekly rule (with its day of the week in 1..7) by seven days.
\<close>

theorem next_occurrence_daily_weekly:
  "nextOccurrence astronomy (rule\<lparr>ruleType := Daily\<rparr>) currentDate today = Inr (currentDate + 1)
   \<and> (1 \<le> d \<and> d \<le> 7 \<longrightarrow>
        nextOccurrence astronomy (rule\<lparr>ruleType := Weekly, ruleDayOfWeek := Some d\<rparr>)
          currentDate today = Inr (currentDate + 7))"
  by (simp add: nextOccurrence_def absentOrOutside_def)

theorem next_occurrence_daily_weekly_witness:
  "(1 :: int) \<le> 1 \<and> (1 :: int) \<le> 7
   \<and> daysFromCivil 2026 1 5 = 20458
   \<and> nextOccurrence (\<lambda>_ _ _. 0)
        \<lparr>ruleType = Daily, ruleInterval = None, ruleDayOfWeek = None, ruleDayOfMonth = None,
         ruleWeekOfMonth = None, ruleDayOfWeekMonthly = None, ruleMonth = None\<rparr> 20458 0
       = Inr 20459
   \<and> civilFromDays 20459 = (2026, 1, 6)
   \<and> nextOccurrence (\<lambda>_ _ _. 0)
        \<lparr>ruleType = Weekly, ruleInterval = None, ruleDayOfWeek = Some 1, ruleDayOfMonth = None,
         ruleWeekOfMonth = None, ruleDayOfWeekMonthly = None, ruleMonth = None\<rparr> 20458 0
       = Inr 20465
   \<and> civilFromDays 20465 = (2026, 1, 12)"
proof -
  have a: "daysFromCivil 2026 1 5 = 20458" by code_simp
  have b: "civilFromDays 20459 = (2026, 1, 6)" by code_simp
  have c: "civilFromDays 20465 = (2026, 1, 12)" by code_simp
  have d: "nextOccurrence (\<lambda>_ _ _. 0)
        \<lparr>ruleType = Daily, ruleInterval = None, ruleDayOfWeek = None, ruleDayOfMonth = None,
         ruleWeekOfMonth = None, ruleDayOfWeekMonthly = None, ruleMonth = None\<rparr> 20458 0
       = Inr 20459"
    using next_occurrence_daily_weekly [of "\<lambda>_ _ _. 0"
        "\<lparr>ruleType = Daily, ruleInterval = None, ruleDayOfWeek = None, ruleDayOfMonth = None,
         ruleWeekOfMonth = None, ruleDayOfWeekMonthly = None, ruleMonth = None\<rparr>" 20458 0 1]
    by simp
  have w: "nextOccurrence (\<lambda>_ _ _. 0)
        \<lparr>ruleType = Weekly, ruleInterval = None, ruleDayOfWeek = Some 1, ruleDayOfMonth = None,
         ruleWeekOfMonth = None, ruleDayOfWeekMonthly = None, ruleMonth = None\<rparr> 20458 0
       = Inr 20465"
    using next_occurrence_daily_weekly [of "\<lambda>_ _ _. 0"
        "\<lparr>ruleType = Daily, ruleInterval = None, ruleDayOfWeek = None, ruleDayOfMonth = None,
         ruleWeekOfMonth = None, ruleDayOfWeekMonthly = None, ruleMonth = None\<rparr>" 20458 0 1]
    by simp
  from a b c d w show ?thesis by simp
qed

end
